theory Spec2Isabelle
  imports Complex_Main
begin

section \<open>The analytics engine of the literature reviewer (Analytics.js)\<close>

text \<open>
  A shallow embedding of the class \<open>AdvancedAnalytics\<close>. Conventions:
  \<^item> A JavaScript string is a \<open>string\<close>: a list of code units, each below 256 (the
    Latin-1 range). \<open>length\<close> is the \<open>.length\<close> of the source.
  \<^item> A JavaScript number is a \<open>rat\<close>: the arithmetic is exact, where the source rounds
    to a double. The quotients the source stores are quotients of two lengths taken under
    a test on the divisor, and the model divides under the same tests; the one quotient
    taken without a test (\<open>matches.length / words.length\<close>, which is NaN for a sentence
    without content words and is only compared, never stored) is a \<open>quotient\<close>.
  \<^item> \<open>this.metrics\<close> is a record passed in and returned updated.
\<close>

subsection \<open>Strings\<close>

text \<open>The white space of \<open>\s\<close> and of \<open>String.prototype.trim\<close>, among code units below 256:
  TAB, LF, VT, FF, CR, SPACE and NO-BREAK SPACE.\<close>

definition is_space :: "char \<Rightarrow> bool" where
  "is_space c = (let n = (of_char c :: nat) in (9 \<le> n \<and> n \<le> 13) \<or> n = 32 \<or> n = 160)"

text \<open>The word characters of \<open>\w\<close> (no unicode flag): \<open>[A-Za-z0-9_]\<close>.\<close>

definition is_word_char :: "char \<Rightarrow> bool" where
  "is_word_char c =
     (let n = (of_char c :: nat)
      in (65 \<le> n \<and> n \<le> 90) \<or> (97 \<le> n \<and> n \<le> 122) \<or> (48 \<le> n \<and> n \<le> 57) \<or> n = 95)"

text \<open>\<open>toLowerCase\<close> on one code unit: \<open>A-Z\<close> and the Latin-1 capitals U+00C0 to U+00DE
  (U+00D7, the multiplication sign, apart) move up by 32.\<close>

definition lower_char :: "char \<Rightarrow> char" where
  "lower_char c =
     (let n = (of_char c :: nat)
      in if (65 \<le> n \<and> n \<le> 90) \<or> (192 \<le> n \<and> n \<le> 222 \<and> n \<noteq> 215)
         then char_of (n + 32) else c)"

definition toLowerCase :: "string \<Rightarrow> string" where
  "toLowerCase s = map lower_char s"

definition trim :: "string \<Rightarrow> string" where
  "trim s = rev (dropWhile is_space (rev (dropWhile is_space s)))"

text \<open>\<open>s.startsWith(w)\<close>, and \<open>s.includes(w)\<close>: \<open>w\<close> occurs in \<open>s\<close> as a contiguous
  substring.\<close>

definition starts_with :: "string \<Rightarrow> string \<Rightarrow> bool" where
  "starts_with s w = (take (length w) s = w)"

fun js_includes :: "string \<Rightarrow> string \<Rightarrow> bool" where
  "js_includes [] w = (w = [])"
| "js_includes (c # cs) w = (starts_with (c # cs) w \<or> js_includes cs w)"

text \<open>
  \<open>s.split(/[...]+/)\<close> for a character class: the pieces of \<open>s\<close> between the maximal runs
  of separator characters. A run at the start or at the end of \<open>s\<close> leaves an empty piece
  there, and the empty string splits into one empty piece, as in ECMAScript. The flag
  says whether the preceding code unit was a separator (the run goes on).
\<close>

fun split_go :: "(char \<Rightarrow> bool) \<Rightarrow> bool \<Rightarrow> string \<Rightarrow> string list" where
  "split_go sep in_run [] = [[]]"
| "split_go sep in_run (c # cs) =
     (if sep c then (if in_run then split_go sep True cs else [] # split_go sep True cs)
      else (case split_go sep False cs of
              [] \<Rightarrow> [[c]]
            | w # ws \<Rightarrow> (c # w) # ws))"

definition split_runs :: "(char \<Rightarrow> bool) \<Rightarrow> string \<Rightarrow> string list" where
  "split_runs sep s = split_go sep False s"

text \<open>\<open>s.split(/,|;/)\<close>: a split at every separator character, one by one.\<close>

fun split_each :: "(char \<Rightarrow> bool) \<Rightarrow> string \<Rightarrow> string list" where
  "split_each sep [] = [[]]"
| "split_each sep (c # cs) =
     (if sep c then [] # split_each sep cs
      else (case split_each sep cs of
              [] \<Rightarrow> [[c]]
            | w # ws \<Rightarrow> (c # w) # ws))"

definition is_sentence_end :: "char \<Rightarrow> bool" where
  "is_sentence_end c = (c = CHR ''.'' \<or> c = CHR ''!'' \<or> c = CHR ''?'')"

definition is_clause_sep :: "char \<Rightarrow> bool" where
  "is_clause_sep c = (c = CHR '','' \<or> c = CHR '';'')"

text \<open>\<open>split(/[.!?]+/)\<close> and \<open>split(/\s+/)\<close>.\<close>

definition split_sentences :: "string \<Rightarrow> string list" where
  "split_sentences s = split_runs is_sentence_end s"

definition split_words :: "string \<Rightarrow> string list" where
  "split_words s = split_runs is_space s"

text \<open>
  \<open>/\b(w1|...|wn)\b/.test(s)\<close>. A word boundary stands between two positions when
  exactly one of the code units beside it is a word character (the outside of the string
  counts as a non-word character). \<open>prev\<close> says whether the code unit before the current
  position is a word character.
\<close>

definition word_at :: "string \<Rightarrow> bool" where
  "word_at s = (case s of [] \<Rightarrow> False | c # _ \<Rightarrow> is_word_char c)"

definition alt_matches :: "bool \<Rightarrow> string \<Rightarrow> string \<Rightarrow> bool" where
  "alt_matches prev s w =
     (starts_with s w \<and> prev \<noteq> word_at s \<and>
      (if w = [] then prev else is_word_char (last w)) \<noteq> word_at (drop (length w) s))"

fun regex_test :: "string list \<Rightarrow> bool \<Rightarrow> string \<Rightarrow> bool" where
  "regex_test ws prev [] = list_ex (alt_matches prev []) ws"
| "regex_test ws prev (c # cs) =
     (list_ex (alt_matches prev (c # cs)) ws \<or> regex_test ws (is_word_char c) cs)"

definition test_words :: "string list \<Rightarrow> string \<Rightarrow> bool" where
  "test_words ws s = regex_test ws False s"

subsection \<open>Repetition\<close>

text \<open>The \<open>forEach\<close> of \<open>calculateRepetition\<close>: \<open>seen\<close> is the set of normalized sentences met
  so far, \<open>repetitionCount\<close> the counter.\<close>

fun repetition_loop :: "string list \<Rightarrow> string set \<Rightarrow> nat \<Rightarrow> nat" where
  "repetition_loop [] seen repetitionCount = repetitionCount"
| "repetition_loop (sentence # rest) seen repetitionCount =
     (let normalized = toLowerCase (trim sentence)
      in repetition_loop rest (insert normalized seen)
           (if normalized \<in> seen then repetitionCount + 1 else repetitionCount))"

definition nonempty_sentences :: "string \<Rightarrow> string list" where
  "nonempty_sentences text = filter (\<lambda>s. length (trim s) > 0) (split_sentences text)"

definition calculateRepetition :: "string \<Rightarrow> rat" where
  "calculateRepetition text =
     (let sentences = nonempty_sentences text
      in if length sentences < 2 then 0
         else of_nat (repetition_loop sentences {} 0) / of_nat (length sentences))"

subsection \<open>Numbers\<close>

text \<open>
  The quotient \<open>a / b\<close> of two lengths where the source does not test the divisor:
  \<open>0 / 0\<close> is NaN and \<open>a / 0\<close> is Infinity for \<open>a > 0\<close>. A comparison with NaN is false.
\<close>

datatype quotient = Finite rat | Infinity | NaN

definition js_div :: "nat \<Rightarrow> nat \<Rightarrow> quotient" where
  "js_div a b = (if b = 0 then (if a = 0 then NaN else Infinity) else Finite (of_nat a / of_nat b))"

definition js_less :: "quotient \<Rightarrow> rat \<Rightarrow> bool" where
  "js_less q r = (case q of Finite x \<Rightarrow> x < r | Infinity \<Rightarrow> False | NaN \<Rightarrow> False)"

definition js_greater :: "quotient \<Rightarrow> rat \<Rightarrow> bool" where
  "js_greater q r = (case q of Finite x \<Rightarrow> x > r | Infinity \<Rightarrow> True | NaN \<Rightarrow> False)"

subsection \<open>Data\<close>

text \<open>An element of \<open>sources\<close> is \<open>{source, similarity}\<close>; a context chunk has these two
  fields and its \<open>text\<close>.\<close>

record citation =
  source :: string
  similarity :: rat

record chunk = citation +
  chunk_text :: string

datatype query_type = Question | Summary | Comparison | Generation | Other

subsection \<open>Per-query metrics\<close>

record diversity_result =
  distinct1 :: rat
  distinct2 :: rat
  uniqueTokens :: nat

definition calculateDiversity :: "string \<Rightarrow> diversity_result" where
  "calculateDiversity text =
     (let tokens = split_words (toLowerCase text);
          unigrams = set tokens;
          bigrams = set (map (\<lambda>i. tokens ! i @ ''_'' @ tokens ! (i + 1)) [0..<length tokens - 1])
      in \<lparr>distinct1 = (if length tokens > 0 then of_nat (card unigrams) / of_nat (length tokens) else 0),
          distinct2 = (if length tokens > 1 then of_nat (card bigrams) / of_nat (length tokens - 1) else 0),
          uniqueTokens = card unigrams\<rparr>)"

text \<open>\<open>xs.join(sep)\<close>.\<close>

fun join :: "string \<Rightarrow> string list \<Rightarrow> string" where
  "join sep [] = []"
| "join sep [x] = x"
| "join sep (x # y # ys) = x @ sep @ join sep (y # ys)"

definition context_text :: "chunk list \<Rightarrow> string" where
  "context_text chunks = join '' '' (map (\<lambda>c. toLowerCase (chunk_text c)) chunks)"

definition calculateContextUtilization :: "string \<Rightarrow> chunk list option \<Rightarrow> rat" where
  "calculateContextUtilization response contextChunks =
     (case contextChunks of
        None \<Rightarrow> 0
      | Some chunks \<Rightarrow>
          if length chunks = 0 then 0
          else
            (let contextText = context_text chunks;
                 responseWords = set (split_words (toLowerCase response));
                 contextWords = set (split_words contextText);
                 usedWords = card (Set.filter (\<lambda>word. word \<in> contextWords \<and> length word > 3) responseWords)
             in if card contextWords > 0 then of_nat usedWords / of_nat (card contextWords) else 0))"

text \<open>The sentences of a response that count for grounding and hallucination, and the
  words of a sentence that count as content words.\<close>

definition long_sentences :: "string \<Rightarrow> string list" where
  "long_sentences response = filter (\<lambda>s. length (trim s) > 20) (split_sentences response)"

definition content_words :: "string \<Rightarrow> string list" where
  "content_words sentence = filter (\<lambda>w. length w > 4) (split_words (toLowerCase sentence))"

text \<open>\<open>matches.length / words.length\<close> for one sentence.\<close>

definition match_rate :: "string \<Rightarrow> string \<Rightarrow> quotient" where
  "match_rate contextText sentence =
     (let words = content_words sentence;
          matches = filter (\<lambda>w. js_includes contextText w) words
      in js_div (length matches) (length words))"

text \<open>A \<open>forEach\<close> that increments a counter on the elements passing a test.\<close>

definition count_each :: "('a \<Rightarrow> bool) \<Rightarrow> 'a list \<Rightarrow> nat" where
  "count_each test xs = fold (\<lambda>x counter. if test x then counter + 1 else counter) xs 0"

definition calculateGrounding :: "string \<Rightarrow> chunk list option \<Rightarrow> rat" where
  "calculateGrounding response contextChunks =
     (case contextChunks of
        None \<Rightarrow> 0
      | Some chunks \<Rightarrow>
          if length chunks = 0 then 0
          else
            (let responseSentences = long_sentences response
             in if length responseSentences = 0 then 0
                else
                  (let contextText = context_text chunks;
                       groundedSentences =
                         count_each (\<lambda>sentence. js_greater (match_rate contextText sentence) (3 / 10))
                           responseSentences
                   in of_nat groundedSentences / of_nat (length responseSentences))))"

definition calculateCitationCoverage :: "citation list \<Rightarrow> chunk list option \<Rightarrow> rat" where
  "calculateCitationCoverage sources contextChunks =
     (case contextChunks of
        None \<Rightarrow> 0
      | Some chunks \<Rightarrow>
          if length chunks = 0 then 0
          else
            (let uniqueSources = set (map source sources);
                 availableSources = set (map source chunks)
             in of_nat (card uniqueSources) / of_nat (card availableSources)))"

definition calculateRetrievalPrecision :: "chunk list option \<Rightarrow> rat \<Rightarrow> rat \<Rightarrow> rat" where
  "calculateRetrievalPrecision contextChunks topSimilarity avgSimilarity =
     (case contextChunks of
        None \<Rightarrow> 0
      | Some chunks \<Rightarrow>
          if length chunks = 0 then 0
          else
            (let highQualityChunks = length (filter (\<lambda>c. similarity c > 1 / 2) chunks)
             in of_nat highQualityChunks / of_nat (length chunks)))"

text \<open>The alternatives of the four regular expressions of \<open>classifyQuery\<close>.\<close>

definition interrogative_words :: "string list" where
  "interrogative_words = [''what'', ''who'', ''when'', ''where'', ''why'', ''how'', ''which'']"

definition summary_words :: "string list" where
  "summary_words = [''summarize'', ''summary'', ''overview'', ''brief'']"

definition comparison_words :: "string list" where
  "comparison_words = [''compare'', ''contrast'', ''difference'', ''versus'', ''vs'']"

definition generation_words :: "string list" where
  "generation_words = [''generate'', ''create'', ''write'', ''compose'']"

definition classifyQuery :: "string \<Rightarrow> query_type" where
  "classifyQuery query =
     (let q = toLowerCase query
      in if test_words interrogative_words q then Question
         else if test_words summary_words q then Summary
         else if test_words comparison_words q then Comparison
         else if test_words generation_words q then Generation
         else Other)"

record query_complexity =
  wordCount :: nat
  sentenceCount :: nat
  avgWordsPerSentence :: rat
  hasQuestion :: bool
  complexity :: rat

definition calculateQueryComplexity :: "string \<Rightarrow> query_complexity" where
  "calculateQueryComplexity query =
     (let words = split_words query;
          sentences = nonempty_sentences query;
          hasQuestionMark = js_includes query ''?'';
          hasClauses = length (split_each is_clause_sep query) - 1
      in \<lparr>wordCount = length words,
          sentenceCount = length sentences,
          avgWordsPerSentence =
            (if length sentences > 0 then of_nat (length words) / of_nat (length sentences) else 0),
          hasQuestion = hasQuestionMark,
          complexity =
            min 10 (of_nat (length words) / 5 + of_nat hasClauses + (if hasQuestionMark then 1 else 0))\<rparr>)"

definition detectHallucination :: "string \<Rightarrow> chunk list option \<Rightarrow> rat" where
  "detectHallucination response contextChunks =
     (case contextChunks of
        None \<Rightarrow> 1
      | Some chunks \<Rightarrow>
          if length chunks = 0 then 1
          else
            (let contextText = context_text chunks;
                 responseSentences = long_sentences response;
                 possibleHallucinations =
                   count_each (\<lambda>sentence. js_less (match_rate contextText sentence) (2 / 10))
                     responseSentences
             in if length responseSentences > 0
                then of_nat possibleHallucinations / of_nat (length responseSentences)
                else 0))"

definition calculateCompleteness :: "string \<Rightarrow> string \<Rightarrow> rat" where
  "calculateCompleteness query response =
     (let queryWords =
            filter (\<lambda>w. length w > 4 \<and>
                         \<not> List.member [''what'', ''when'', ''where'', ''which'', ''could'', ''would'', ''should''] w)
              (split_words (toLowerCase query))
      in if length queryWords = 0 then 1
         else
           (let responseLower = toLowerCase response;
                addressedWords = filter (\<lambda>word. js_includes responseLower word) queryWords
            in of_nat (length addressedWords) / of_nat (length queryWords)))"

text \<open>\<open>sources\<close> is an array, so \<open>!sources\<close> is false and the test is the one on its length.\<close>

definition calculateSourceDiversity :: "citation list \<Rightarrow> rat" where
  "calculateSourceDiversity sources =
     (if length sources = 0 then 0
      else
        (let uniqueSources = set (map source sources)
         in of_nat (card uniqueSources) / of_nat (length sources)))"

subsection \<open>The tracked state\<close>

text \<open>The argument of \<open>trackQuery\<close>. \<open>contextChunks\<close> may be absent (\<open>None\<close>: the
  \<open>!contextChunks\<close> of the source); \<open>sources\<close> is an array, as the data model has it.\<close>

record query_record =
  query :: string
  response :: string
  sources :: "citation list"
  contextChunks :: "chunk list option"
  ttftMs :: rat
  totalTimeMs :: rat
  tokensGenerated :: rat
  topSimilarity :: rat
  avgSimilarity :: rat

text \<open>\<open>this.metrics\<close>, field by field.\<close>

record metrics =
  responseLengths :: "rat list"
  vocabularyUnique :: "string set"
  repetitionScores :: "rat list"
  diversityDistinct1 :: "rat list"
  diversityDistinct2 :: "rat list"
  contextUtilization :: "rat list"
  answerGrounding :: "rat list"
  citationCoverage :: "rat list"
  retrievalPrecision :: "rat list"
  totalGenTime :: "rat list"
  throughput :: "rat list"
  memoryUsage :: "rat list"
  queryComplexity :: "rat list"
  sessionDurations :: "rat list"
  followUpRates :: "rat list"
  queryTypes :: "query_type \<Rightarrow> nat"
  hallucinationScores :: "rat list"
  completenessScores :: "rat list"
  sourceDiversity :: "rat list"

definition constructor :: metrics where
  "constructor =
     \<lparr>responseLengths = [], vocabularyUnique = {}, repetitionScores = [],
      diversityDistinct1 = [], diversityDistinct2 = [],
      contextUtilization = [], answerGrounding = [], citationCoverage = [],
      retrievalPrecision = [],
      totalGenTime = [], throughput = [], memoryUsage = [],
      queryComplexity = [], sessionDurations = [], followUpRates = [],
      queryTypes = (\<lambda>_. 0),
      hallucinationScores = [], completenessScores = [], sourceDiversity = []\<rparr>"

text \<open>The object \<open>trackQuery\<close> returns. Its fields that share a name with a sequence of
  \<open>this.metrics\<close> carry the prefix \<open>qm_\<close>.\<close>

record query_metrics =
  responseLength :: nat
  diversity :: diversity_result
  repetition :: rat
  qm_contextUtilization :: rat
  qm_answerGrounding :: rat
  qm_citationCoverage :: rat
  qm_retrievalPrecision :: rat
  qm_throughput :: rat
  qm_queryComplexity :: query_complexity
  queryType :: query_type
  hallucinationScore :: rat
  completeness :: rat
  qm_sourceDiversity :: rat

text \<open>\<open>arr.push(x)\<close>.\<close>

definition push :: "'a list \<Rightarrow> 'a \<Rightarrow> 'a list" where
  "push arr x = arr @ [x]"

definition trackQuery :: "metrics \<Rightarrow> query_record \<Rightarrow> metrics \<times> query_metrics" where
  "trackQuery m d =
     (let len = length (response d);
          dv = calculateDiversity (response d);
          rep = calculateRepetition (response d);
          contextUtil = calculateContextUtilization (response d) (contextChunks d);
          grounding = calculateGrounding (response d) (contextChunks d);
          citationCov = calculateCitationCoverage (sources d) (contextChunks d);
          retrievalPrec =
            calculateRetrievalPrecision (contextChunks d) (topSimilarity d) (avgSimilarity d);
          thr = (if totalTimeMs d > 0 then (tokensGenerated d / totalTimeMs d) * 1000 else 0);
          queryComp = calculateQueryComplexity (query d);
          qt = classifyQuery (query d);
          hall = detectHallucination (response d) (contextChunks d);
          compl = calculateCompleteness (query d) (response d);
          sdiv = calculateSourceDiversity (sources d)
      in (m\<lparr>responseLengths := push (responseLengths m) (of_nat len),
             diversityDistinct1 := push (diversityDistinct1 m) (distinct1 dv),
             diversityDistinct2 := push (diversityDistinct2 m) (distinct2 dv),
             repetitionScores := push (repetitionScores m) rep,
             contextUtilization := push (contextUtilization m) contextUtil,
             answerGrounding := push (answerGrounding m) grounding,
             citationCoverage := push (citationCoverage m) citationCov,
             retrievalPrecision := push (retrievalPrecision m) retrievalPrec,
             totalGenTime := push (totalGenTime m) (totalTimeMs d),
             throughput := push (throughput m) thr,
             queryComplexity := push (queryComplexity m) (complexity queryComp),
             queryTypes := (queryTypes m)(qt := queryTypes m qt + 1),
             hallucinationScores := push (hallucinationScores m) hall,
             completenessScores := push (completenessScores m) compl,
             sourceDiversity := push (sourceDiversity m) sdiv\<rparr>,
          \<lparr>responseLength = len,
           diversity = dv,
           repetition = rep,
           qm_contextUtilization = contextUtil,
           qm_answerGrounding = grounding,
           qm_citationCoverage = citationCov,
           qm_retrievalPrecision = retrievalPrec,
           qm_throughput = thr,
           qm_queryComplexity = queryComp,
           queryType = qt,
           hallucinationScore = hall,
           completeness = compl,
           qm_sourceDiversity = sdiv\<rparr>))"

text \<open>A session: the records tracked one after the other, from a fresh instance.\<close>

definition track_all :: "metrics \<Rightarrow> query_record list \<Rightarrow> metrics" where
  "track_all m ds = foldl (\<lambda>st d. fst (trackQuery st d)) m ds"

subsection \<open>Aggregation\<close>

definition avg :: "rat list \<Rightarrow> rat" where
  "avg arr = (if length arr > 0 then foldl (\<lambda>a b. a + b) 0 arr / of_nat (length arr) else 0)"

text \<open>\<open>[...arr].sort((a, b) => a - b)\<close> sorts the numbers in ascending order.\<close>

definition median :: "rat list \<Rightarrow> rat" where
  "median arr =
     (if length arr = 0 then 0
      else
        (let sorted = sort arr;
             mid = length sorted div 2
         in if length sorted mod 2 = 0 then (sorted ! (mid - 1) + sorted ! mid) / 2
            else sorted ! mid))"

text \<open>Reading an array past its end gives \<open>undefined\<close>: \<open>None\<close>.\<close>

definition percentile :: "rat list \<Rightarrow> rat \<Rightarrow> rat option" where
  "percentile arr p =
     (if length arr = 0 then Some 0
      else
        (let sorted = sort arr;
             idx = \<lceil>(p / 100) * of_nat (length sorted)\<rceil> - 1;
             i = nat (max 0 idx)
         in if i < length sorted then Some (sorted ! i) else None))"

text \<open>\<open>Math.min(...arr, 0)\<close> and \<open>Math.max(...arr, 0)\<close>.\<close>

definition min_with_0 :: "rat list \<Rightarrow> rat" where
  "min_with_0 arr = fold min arr 0"

definition max_with_0 :: "rat list \<Rightarrow> rat" where
  "max_with_0 arr = fold max arr 0"

record generation_stats =
  avgResponseLength :: rat
  medianResponseLength :: rat
  minResponseLength :: rat
  maxResponseLength :: rat
  avgDistinct1 :: rat
  avgDistinct2 :: rat
  avgRepetition :: rat

record rag_stats =
  avgContextUtilization :: rat
  avgAnswerGrounding :: rat
  avgCitationCoverage :: rat
  avgRetrievalPrecision :: rat

record performance_stats =
  avgTotalGenTime :: rat
  medianTotalGenTime :: rat
  p95TotalGenTime :: "rat option"
  avgThroughput :: rat

record engagement_stats =
  avgQueryComplexity :: rat
  queryTypeDistribution :: "query_type \<Rightarrow> nat"

record quality_stats =
  avgHallucinationScore :: rat
  avgCompleteness :: rat
  avgSourceDiversity :: rat

record aggregated_stats =
  generation :: generation_stats
  rag :: rag_stats
  performance :: performance_stats
  engagement :: engagement_stats
  quality :: quality_stats

definition getAggregatedStats :: "metrics \<Rightarrow> aggregated_stats" where
  "getAggregatedStats m =
     \<lparr>generation =
        \<lparr>avgResponseLength = avg (responseLengths m),
         medianResponseLength = median (responseLengths m),
         minResponseLength = min_with_0 (responseLengths m),
         maxResponseLength = max_with_0 (responseLengths m),
         avgDistinct1 = avg (diversityDistinct1 m),
         avgDistinct2 = avg (diversityDistinct2 m),
         avgRepetition = avg (repetitionScores m)\<rparr>,
      rag =
        \<lparr>avgContextUtilization = avg (contextUtilization m),
         avgAnswerGrounding = avg (answerGrounding m),
         avgCitationCoverage = avg (citationCoverage m),
         avgRetrievalPrecision = avg (retrievalPrecision m)\<rparr>,
      performance =
        \<lparr>avgTotalGenTime = avg (totalGenTime m),
         medianTotalGenTime = median (totalGenTime m),
         p95TotalGenTime = percentile (totalGenTime m) 95,
         avgThroughput = avg (throughput m)\<rparr>,
      engagement =
        \<lparr>avgQueryComplexity = avg (queryComplexity m),
         queryTypeDistribution = queryTypes m\<rparr>,
      quality =
        \<lparr>avgHallucinationScore = avg (hallucinationScores m),
         avgCompleteness = avg (completenessScores m),
         avgSourceDiversity = avg (sourceDiversity m)\<rparr>\<rparr>"

section \<open>The metrics as the specification words them\<close>

text \<open>The category rules as an ordered list, the first rule that matches deciding.\<close>

definition category_rules :: "(string list \<times> query_type) list" where
  "category_rules =
     [(interrogative_words, Question), (summary_words, Summary),
      (comparison_words, Comparison), (generation_words, Generation)]"

definition first_match :: "string \<Rightarrow> query_type" where
  "first_match q =
     (case find (\<lambda>rule. test_words (fst rule) q) category_rules of
        None \<Rightarrow> Other
      | Some rule \<Rightarrow> snd rule)"



text \<open>The fourteen sequences that \<open>trackQuery\<close> maintains, and the sum of the five
  counters of \<open>queryTypes\<close>.\<close>

definition sequences :: "metrics \<Rightarrow> rat list list" where
  "sequences m =
     [responseLengths m, diversityDistinct1 m, diversityDistinct2 m, repetitionScores m,
      contextUtilization m, answerGrounding m, citationCoverage m, retrievalPrecision m,
      totalGenTime m, throughput m, queryComplexity m, hallucinationScores m,
      completenessScores m, sourceDiversity m]"

definition counters_total :: "metrics \<Rightarrow> nat" where
  "counters_total m =
     queryTypes m Question + queryTypes m Summary + queryTypes m Comparison +
     queryTypes m Generation + queryTypes m Other"

section \<open>Properties\<close>

subsection \<open>Tracking a query with an empty context\<close>

text \<open>
  Claim C1. Whatever the state, the query, the response and the sources are, a record
  whose \<open>contextChunks\<close> is the empty array makes \<open>trackQuery\<close> return context
  utilization 0, answer grounding 0, citation coverage 0 and hallucination score 1.
\<close>

theorem trackQuery_empty_context:
  assumes "contextChunks d = Some []"
  shows "qm_contextUtilization (snd (trackQuery m d)) = 0 \<and>
         qm_answerGrounding (snd (trackQuery m d)) = 0 \<and>
         qm_citationCoverage (snd (trackQuery m d)) = 0 \<and>
         hallucinationScore (snd (trackQuery m d)) = 1"
  using assms
  by (simp add: trackQuery_def Let_def calculateContextUtilization_def calculateGrounding_def
        calculateCitationCoverage_def detectHallucination_def)

theorem trackQuery_empty_context_witness:
  "contextChunks \<lparr>query = ''What is x?'', response = ''The sky is blue.'',
       sources = [\<lparr>source = ''a.pdf'', similarity = 9 / 10\<rparr>], contextChunks = Some [],
       ttftMs = 10, totalTimeMs = 100, tokensGenerated = 5, topSimilarity = 0,
       avgSimilarity = 0\<rparr> = Some [] \<and>
   qm_contextUtilization (snd (trackQuery constructor
     \<lparr>query = ''What is x?'', response = ''The sky is blue.'',
       sources = [\<lparr>source = ''a.pdf'', similarity = 9 / 10\<rparr>], contextChunks = Some [],
       ttftMs = 10, totalTimeMs = 100, tokensGenerated = 5, topSimilarity = 0,
       avgSimilarity = 0\<rparr>)) = 0 \<and>
   qm_answerGrounding (snd (trackQuery constructor
     \<lparr>query = ''What is x?'', response = ''The sky is blue.'',
       sources = [\<lparr>source = ''a.pdf'', similarity = 9 / 10\<rparr>], contextChunks = Some [],
       ttftMs = 10, totalTimeMs = 100, tokensGenerated = 5, topSimilarity = 0,
       avgSimilarity = 0\<rparr>)) = 0 \<and>
   qm_citationCoverage (snd (trackQuery constructor
     \<lparr>query = ''What is x?'', response = ''The sky is blue.'',
       sources = [\<lparr>source = ''a.pdf'', similarity = 9 / 10\<rparr>], contextChunks = Some [],
       ttftMs = 10, totalTimeMs = 100, tokensGenerated = 5, topSimilarity = 0,
       avgSimilarity = 0\<rparr>)) = 0 \<and>
   hallucinationScore (snd (trackQuery constructor
     \<lparr>query = ''What is x?'', response = ''The sky is blue.'',
       sources = [\<lparr>source = ''a.pdf'', similarity = 9 / 10\<rparr>], contextChunks = Some [],
       ttftMs = 10, totalTimeMs = 100, tokensGenerated = 5, topSimilarity = 0,
       avgSimilarity = 0\<rparr>)) = 1"
  using trackQuery_empty_context [of "\<lparr>query = ''What is x?'', response = ''The sky is blue.'',
       sources = [\<lparr>source = ''a.pdf'', similarity = 9 / 10\<rparr>], contextChunks = Some [],
       ttftMs = 10, totalTimeMs = 100, tokensGenerated = 5, topSimilarity = 0,
       avgSimilarity = 0\<rparr>" constructor]
  by simp

subsection \<open>Aggregates of a fresh instance\<close>

text \<open>
  Claim C2. On a freshly constructed instance \<open>getAggregatedStats\<close> returns the number 0
  for every mean, every median and the 95th percentile (\<open>Some 0\<close>: a number, not
  \<open>undefined\<close>); the minimum and the maximum of the response lengths are 0 as well, and
  the distribution of query types is the initial one.
\<close>

theorem getAggregatedStats_fresh:
  "getAggregatedStats constructor =
     \<lparr>generation =
        \<lparr>avgResponseLength = 0, medianResponseLength = 0, minResponseLength = 0,
         maxResponseLength = 0, avgDistinct1 = 0, avgDistinct2 = 0, avgRepetition = 0\<rparr>,
      rag =
        \<lparr>avgContextUtilization = 0, avgAnswerGrounding = 0, avgCitationCoverage = 0,
         avgRetrievalPrecision = 0\<rparr>,
      performance =
        \<lparr>avgTotalGenTime = 0, medianTotalGenTime = 0, p95TotalGenTime = Some 0,
         avgThroughput = 0\<rparr>,
      engagement = \<lparr>avgQueryComplexity = 0, queryTypeDistribution = (\<lambda>_. 0)\<rparr>,
      quality =
        \<lparr>avgHallucinationScore = 0, avgCompleteness = 0, avgSourceDiversity = 0\<rparr>\<rparr>"
  by (simp add: getAggregatedStats_def constructor_def avg_def median_def percentile_def
        min_with_0_def max_with_0_def)

subsection \<open>Retrieval precision\<close>

text \<open>
  Claim C4. \<open>calculateRetrievalPrecision\<close> returns the same value for any two pairs of
  \<open>topSimilarity\<close> and \<open>avgSimilarity\<close>: on a non-empty array of chunks the number of
  chunks whose similarity exceeds \<open>0.5\<close> divided by the number of chunks, and 0 on an
  empty or absent array.
\<close>

theorem calculateRetrievalPrecision_ignores_similarity:
  "calculateRetrievalPrecision cs t1 a1 = calculateRetrievalPrecision cs t2 a2 \<and>
   calculateRetrievalPrecision (Some (c # rest)) t1 a1 =
     of_nat (length (filter (\<lambda>x. similarity x > 1 / 2) (c # rest))) / of_nat (length (c # rest)) \<and>
   calculateRetrievalPrecision (Some []) t1 a1 = 0 \<and>
   calculateRetrievalPrecision None t1 a1 = 0"
  by (simp add: calculateRetrievalPrecision_def)

subsection \<open>Citation coverage\<close>

text \<open>
  Claim C9. On a non-empty array of chunks \<open>calculateCitationCoverage\<close> returns the number
  of distinct sources of the source list divided by the number of distinct sources of the
  chunks, unclamped: when the source list names more distinct sources than the chunks
  have, the coverage exceeds 1.
\<close>

theorem calculateCitationCoverage_unclamped:
  "chunks \<noteq> [] \<Longrightarrow>
     calculateCitationCoverage srcs (Some chunks) =
       of_nat (card (source ` set srcs)) / of_nat (card (source ` set chunks)) \<and>
     (card (source ` set chunks) < card (source ` set srcs) \<longrightarrow>
        1 < calculateCitationCoverage srcs (Some chunks))"
proof -
  assume ne: "chunks \<noteq> []"
  then have pos: "0 < card (source ` set chunks)"
    by (simp add: card_gt_0_iff)
  have eq: "calculateCitationCoverage srcs (Some chunks) =
       of_nat (card (source ` set srcs)) / of_nat (card (source ` set chunks))"
    using ne by (simp add: calculateCitationCoverage_def)
  show ?thesis
    using pos by (simp add: eq)
qed

theorem calculateCitationCoverage_unclamped_witness:
  "[\<lparr>source = ''a.pdf'', similarity = 1, chunk_text = ''alpha''\<rparr>] \<noteq> [] \<and>
   card (source ` set [\<lparr>source = ''a.pdf'', similarity = 1, chunk_text = ''alpha''\<rparr>]) <
     card (source ` set [\<lparr>source = ''a.pdf'', similarity = 1\<rparr>, \<lparr>source = ''b.pdf'', similarity = 1\<rparr>]) \<and>
   calculateCitationCoverage
     [\<lparr>source = ''a.pdf'', similarity = 1\<rparr>, \<lparr>source = ''b.pdf'', similarity = 1\<rparr>]
     (Some [\<lparr>source = ''a.pdf'', similarity = 1, chunk_text = ''alpha''\<rparr>]) = 2 \<and>
   1 < calculateCitationCoverage
     [\<lparr>source = ''a.pdf'', similarity = 1\<rparr>, \<lparr>source = ''b.pdf'', similarity = 1\<rparr>]
     (Some [\<lparr>source = ''a.pdf'', similarity = 1, chunk_text = ''alpha''\<rparr>])"
  using calculateCitationCoverage_unclamped
    [of "[\<lparr>source = ''a.pdf'', similarity = 1, chunk_text = ''alpha''\<rparr>]"
        "[\<lparr>source = ''a.pdf'', similarity = 1\<rparr>, \<lparr>source = ''b.pdf'', similarity = 1\<rparr>]"]
  by simp

subsection \<open>Responses without a long sentence\<close>

lemma split_yes_no: "split_sentences ''Yes. No!'' = [''Yes'', '' No'', []]"
  by (simp add: split_sentences_def split_runs_def is_sentence_end_def)

text \<open>
  Claim C10. With a non-empty array of chunks, a response none of whose sentences has a
  trimmed length above 20 gets grounding 0 and hallucination score 0.
\<close>

theorem short_sentences_score_zero:
  assumes "chunks \<noteq> []"
    and "\<forall>s \<in> set (split_sentences resp). length (trim s) \<le> 20"
  shows "calculateGrounding resp (Some chunks) = 0 \<and>
         detectHallucination resp (Some chunks) = 0"
proof -
  have "long_sentences resp = []"
    using assms(2) by (auto simp: long_sentences_def filter_empty_conv)
  then show ?thesis
    using assms(1) by (simp add: calculateGrounding_def detectHallucination_def count_each_def)
qed

theorem short_sentences_score_zero_witness:
  "[\<lparr>source = ''a.pdf'', similarity = 1, chunk_text = ''alpha''\<rparr>] \<noteq> [] \<and>
   list_all (\<lambda>s. length (trim s) \<le> 20) (split_sentences ''Yes. No!'') \<and>
   calculateGrounding ''Yes. No!''
     (Some [\<lparr>source = ''a.pdf'', similarity = 1, chunk_text = ''alpha''\<rparr>]) = 0 \<and>
   detectHallucination ''Yes. No!''
     (Some [\<lparr>source = ''a.pdf'', similarity = 1, chunk_text = ''alpha''\<rparr>]) = 0"
proof -
  have short: "\<forall>s \<in> set (split_sentences ''Yes. No!''). length (trim s) \<le> 20"
    by (simp add: split_yes_no trim_def is_space_def)
  show ?thesis
    using short short_sentences_score_zero
      [of "[\<lparr>source = ''a.pdf'', similarity = 1, chunk_text = ''alpha''\<rparr>]" "''Yes. No!''"]
    by (simp add: list_all_iff)
qed

subsection \<open>Query classification\<close>

text \<open>
  Claim C6. \<open>classifyQuery\<close> applies the rules question, summary, comparison, generation
  in this order to the lower-cased query and returns the category of the first rule that
  matches, \<open>Other\<close> when none does. So a query that matches an interrogative word and the
  comparison vocabulary is a question, and the query
  ``Compare the methodologies used in paper A and paper B'' is a comparison.
\<close>

theorem classifyQuery_first_match:
  "classifyQuery q = first_match (toLowerCase q) \<and>
   (test_words interrogative_words (toLowerCase q) \<and> test_words comparison_words (toLowerCase q)
      \<longrightarrow> classifyQuery q = Question) \<and>
   classifyQuery ''Compare the methodologies used in paper A and paper B'' = Comparison"
proof -
  have ordered: "classifyQuery q = first_match (toLowerCase q)"
    by (simp add: classifyQuery_def first_match_def category_rules_def)
  have both: "test_words interrogative_words (toLowerCase q) \<and>
      test_words comparison_words (toLowerCase q) \<longrightarrow> classifyQuery q = Question"
    by (simp add: classifyQuery_def)
  have example: "classifyQuery ''Compare the methodologies used in paper A and paper B'' = Comparison"
    by code_simp
  from ordered both example show ?thesis
    by blast
qed

theorem classifyQuery_first_match_witness:
  "test_words interrogative_words (toLowerCase ''What is the difference?'') \<and>
   test_words comparison_words (toLowerCase ''What is the difference?'') \<and>
   classifyQuery ''What is the difference?'' = Question"
proof -
  have a: "test_words interrogative_words (toLowerCase ''What is the difference?'')"
    by code_simp
  have b: "test_words comparison_words (toLowerCase ''What is the difference?'')"
    by code_simp
  from a b classifyQuery_first_match [of "''What is the difference?''"] show ?thesis
    by blast
qed

subsection \<open>Repetition score\<close>



subsection \<open>Hallucination score\<close>

text \<open>\<open>includes\<close> is the substring relation.\<close>

lemma js_includes_iff: "js_includes s w \<longleftrightarrow> (\<exists>p q. s = p @ w @ q)"
proof (induction s)
  case Nil
  then show ?case by auto
next
  case (Cons c cs)
  have pre: "starts_with (c # cs) w \<longleftrightarrow> (\<exists>q. c # cs = w @ q)"
    unfolding starts_with_def
    by (metis append_eq_conv_conj append_take_drop_id)
  show ?case
  proof
    assume "js_includes (c # cs) w"
    then consider "starts_with (c # cs) w" | "js_includes cs w" by auto
    then show "\<exists>p q. c # cs = p @ w @ q"
    proof cases
      case 1
      then obtain q where "c # cs = w @ q" using pre by blast
      then have "c # cs = [] @ w @ q" by simp
      then show ?thesis by blast
    next
      case 2
      then obtain p q where "cs = p @ w @ q" using Cons.IH by blast
      then have "c # cs = (c # p) @ w @ q" by simp
      then show ?thesis by blast
    qed
  next
    assume "\<exists>p q. c # cs = p @ w @ q"
    then obtain p q where pq: "c # cs = p @ w @ q" by blast
    show "js_includes (c # cs) w"
    proof (cases p)
      case Nil
      then have "\<exists>q. c # cs = w @ q" using pq by auto
      then have "starts_with (c # cs) w" using pre by blast
      then show ?thesis by simp
    next
      case (Cons a p')
      then have "cs = p' @ w @ q" using pq by simp
      then show ?thesis using Cons.IH by auto
    qed
  qed
qed




subsection \<open>The 95th percentile of the generation times\<close>

text \<open>
  Claim C7. When generation times have been tracked, the 95th percentile of the
  aggregate is the element of the ascending sort of the times at the index
  \<open>max 0 (\<lceil>95 / 100 * n\<rceil> - 1)\<close>, where \<open>n\<close> is their number; this index lies within the
  sequence.
\<close>

theorem p95_nearest_rank:
  assumes "totalGenTime m \<noteq> []"
  shows "nat (max 0 (\<lceil>(95 / 100) * rat_of_nat (length (totalGenTime m))\<rceil> - 1))
           < length (totalGenTime m) \<and>
         p95TotalGenTime (performance (getAggregatedStats m)) =
           Some (sort (totalGenTime m) !
                   nat (max 0 (\<lceil>(95 / 100) * rat_of_nat (length (totalGenTime m))\<rceil> - 1)))"
proof -
  let ?n = "length (totalGenTime m)"
  let ?c = "\<lceil>(95 / 100) * rat_of_nat ?n\<rceil>"
  have pos: "0 < ?n"
    using assms by simp
  have "(95 / 100) * rat_of_nat ?n \<le> rat_of_nat ?n"
    by simp
  then have "?c \<le> int ?n"
    by (simp add: ceiling_le_iff)
  moreover have "nat (max 0 (c - 1)) < k" if "c \<le> int k" and "0 < k" for c :: int and k :: nat
    using that by arith
  ultimately have inrange: "nat (max 0 (?c - 1)) < ?n"
    using pos by blast
  show ?thesis
    using inrange assms
    by (simp add: getAggregatedStats_def percentile_def Let_def del: of_nat_mult times_divide_eq_left)
qed

theorem p95_nearest_rank_witness:
  "totalGenTime (constructor\<lparr>totalGenTime := [30, 10, 20]\<rparr>) \<noteq> [] \<and>
   p95TotalGenTime (performance (getAggregatedStats (constructor\<lparr>totalGenTime := [30, 10, 20]\<rparr>)))
     = Some 30"
proof -
  have idx: "nat (max 0 (\<lceil>(95 / 100) * rat_of_nat (length [30, 10, 20 :: rat])\<rceil> - 1)) = 2"
    by code_simp
  have ne: "totalGenTime (constructor\<lparr>totalGenTime := [30, 10, 20]\<rparr>) \<noteq> []"
    by simp
  show ?thesis
    using p95_nearest_rank [OF ne] idx by simp
qed

subsection \<open>Growth of the tracked state\<close>

lemma sequences_step:
  "map butlast (sequences (fst (trackQuery m d))) = sequences m \<and>
   map length (sequences (fst (trackQuery m d))) = map Suc (map length (sequences m))"
  by (simp add: trackQuery_def sequences_def push_def Let_def)

lemma queryTypes_step:
  "queryTypes (fst (trackQuery m d)) =
     (queryTypes m)(classifyQuery (query d) := queryTypes m (classifyQuery (query d)) + 1)"
  by (simp add: trackQuery_def Let_def)

lemma counters_total_step:
  "counters_total (fst (trackQuery m d)) = counters_total m + 1"
  unfolding counters_total_def queryTypes_step
  by (cases "classifyQuery (query d)") simp_all

lemma track_all_counts:
  "map length (sequences (track_all m ds)) = map (\<lambda>k. k + length ds) (map length (sequences m)) \<and>
   counters_total (track_all m ds) = counters_total m + length ds"
proof (induction ds arbitrary: m)
  case Nil
  then show ?case by (simp add: track_all_def)
next
  case (Cons d ds)
  have unroll: "track_all m (d # ds) = track_all (fst (trackQuery m d)) ds"
    by (simp add: track_all_def)
  show ?case
    unfolding unroll
    by (simp add: Cons.IH sequences_step counters_total_step comp_def)
qed

lemma fresh_counts:
  "map length (sequences constructor) = replicate 14 0 \<and> counters_total constructor = 0"
  by (simp add: sequences_def counters_total_def constructor_def eval_nat_numeral)

text \<open>
  Claim C8. A call of \<open>trackQuery\<close> appends one element to each of the fourteen sequences
  (each keeps its elements and grows by one) and adds one to the counter of the class of
  the query, leaving the other counters as they are. After the calls for the records
  \<open>ds\<close> on a fresh instance, each of the fourteen sequences has the length of \<open>ds\<close>, and the
  counters add up to it.
\<close>

theorem trackQuery_appends_one:
  "map butlast (sequences (fst (trackQuery m d))) = sequences m \<and>
   map length (sequences (fst (trackQuery m d))) = map Suc (map length (sequences m)) \<and>
   queryTypes (fst (trackQuery m d)) =
     (queryTypes m)(classifyQuery (query d) := queryTypes m (classifyQuery (query d)) + 1) \<and>
   counters_total (fst (trackQuery m d)) = counters_total m + 1 \<and>
   map length (sequences (track_all constructor ds)) = replicate 14 (length ds) \<and>
   counters_total (track_all constructor ds) = length ds"
proof -
  have "map length (sequences (track_all constructor ds)) = replicate 14 (length ds)"
    using track_all_counts [of constructor ds] fresh_counts
    by (simp add: eval_nat_numeral)
  moreover have "counters_total (track_all constructor ds) = length ds"
    using track_all_counts [of constructor ds] fresh_counts by simp
  ultimately show ?thesis
    using sequences_step [of m d] queryTypes_step [of m d] counters_total_step [of m d]
    by blast
qed

end
